theory Spec2Isabelle
  imports Main
begin

section \<open>The libgpiod interface used by DigitalPin\<close>

text \<open>
  DigitalPin.cpp drives a GPIO line through seven functions of libgpiod (version 1). The
  library and the kernel behind it are not part of the repository, so what they answer is
  a parameter: the fields \<open>chip_answer\<close>, \<open>line_answer\<close>, \<open>request_answer\<close>,
  \<open>value_answer\<close>, \<open>set_answer\<close> and \<open>strerror_errno\<close> of the world give the result
  of each call, as a function of the calls made so far (so that two calls may be answered
  differently). The remaining fields are state: the chips that are open, the lines that
  are reserved, the value last driven on each line, the log of library calls in the order
  they were made, and the three standard streams of the driver.

  Pointers are addresses, \<open>NULL\<close> is the address 0. A C \<open>int\<close> is an \<open>int\<close> here: the
  program does no arithmetic on them; the one conversion, of \<open>pinNumber_\<close> to the
  \<open>unsigned int\<close> offset of \<open>gpiod_chip_get_line\<close>, is written out in \<open>unsigned_int\<close>.
\<close>

type_synonym gpiod_chip_ptr = nat
type_synonym gpiod_line_ptr = nat

definition NULL :: nat where
  "NULL = 0"

datatype request_type = GPIOD_LINE_REQUEST_DIRECTION_INPUT | GPIOD_LINE_REQUEST_DIRECTION_OUTPUT

record gpiod_line_request_config =
  request_type :: request_type
  consumer :: string
  flags :: int

datatype gpiod_call =
    chip_open_by_number nat
  | chip_get_line gpiod_chip_ptr nat
  | line_request gpiod_line_ptr gpiod_line_request_config int
  | line_release gpiod_line_ptr
  | chip_close gpiod_chip_ptr
  | line_get_value gpiod_line_ptr
  | line_set_value gpiod_line_ptr int

record world =
  chip_answer :: "gpiod_call list \<Rightarrow> nat \<Rightarrow> gpiod_chip_ptr"
  line_answer :: "gpiod_call list \<Rightarrow> gpiod_chip_ptr \<Rightarrow> nat \<Rightarrow> gpiod_line_ptr"
  request_answer :: "gpiod_call list \<Rightarrow> gpiod_line_ptr \<Rightarrow> gpiod_line_request_config \<Rightarrow> int"
  value_answer :: "gpiod_call list \<Rightarrow> gpiod_line_ptr \<Rightarrow> int"
  set_answer :: "gpiod_call list \<Rightarrow> gpiod_line_ptr \<Rightarrow> int \<Rightarrow> int"
  strerror_errno :: "gpiod_call list \<Rightarrow> string"
  open_chips :: "gpiod_chip_ptr list"
  requested_lines :: "gpiod_line_ptr list"
  driven :: "gpiod_line_ptr \<Rightarrow> int option"
  calls :: "gpiod_call list"
  cin :: string
  cout :: "string list"
  cerr :: "string list"

definition gpiod_chip_open_by_number :: "nat \<Rightarrow> world \<Rightarrow> gpiod_chip_ptr \<times> world" where
  "gpiod_chip_open_by_number num w =
     (let chip = chip_answer w (calls w) num
      in (chip, w\<lparr>open_chips := (if chip = NULL then open_chips w else chip # open_chips w),
                  calls := calls w @ [chip_open_by_number num]\<rparr>))"

definition gpiod_chip_get_line :: "gpiod_chip_ptr \<Rightarrow> nat \<Rightarrow> world \<Rightarrow> gpiod_line_ptr \<times> world" where
  "gpiod_chip_get_line chip offset w =
     (line_answer w (calls w) chip offset, w\<lparr>calls := calls w @ [chip_get_line chip offset]\<rparr>)"

definition gpiod_line_request ::
    "gpiod_line_ptr \<Rightarrow> gpiod_line_request_config \<Rightarrow> int \<Rightarrow> world \<Rightarrow> int \<times> world" where
  "gpiod_line_request line config default_val w =
     (let rc = request_answer w (calls w) line config
      in (rc, w\<lparr>requested_lines := (if rc = 0 then line # requested_lines w else requested_lines w),
                calls := calls w @ [line_request line config default_val]\<rparr>))"

definition gpiod_line_release :: "gpiod_line_ptr \<Rightarrow> world \<Rightarrow> world" where
  "gpiod_line_release line w =
     w\<lparr>requested_lines := remove1 line (requested_lines w),
       calls := calls w @ [line_release line]\<rparr>"

definition gpiod_chip_close :: "gpiod_chip_ptr \<Rightarrow> world \<Rightarrow> world" where
  "gpiod_chip_close chip w =
     w\<lparr>open_chips := remove1 chip (open_chips w), calls := calls w @ [chip_close chip]\<rparr>"

definition gpiod_line_get_value :: "gpiod_line_ptr \<Rightarrow> world \<Rightarrow> int \<times> world" where
  "gpiod_line_get_value line w =
     (value_answer w (calls w) line, w\<lparr>calls := calls w @ [line_get_value line]\<rparr>)"

definition gpiod_line_set_value :: "gpiod_line_ptr \<Rightarrow> int \<Rightarrow> world \<Rightarrow> int \<times> world" where
  "gpiod_line_set_value line v w =
     (let rc = set_answer w (calls w) line v
      in (rc, w\<lparr>driven := (if rc = 0 then (driven w)(line := Some v) else driven w),
                calls := calls w @ [line_set_value line v]\<rparr>))"

section \<open>The pieces of the C++ standard library\<close>

text \<open>
  Every exception of the program is a \<open>std::runtime_error\<close>, told apart by its message
  only. A call returns a value, throws, or blocks: \<open>Blocks\<close> is the outcome of a call
  that waits for a mutex another caller holds. \<open>to_string\<close> is \<open>std::to_string(int)\<close>,
  the decimal rendering with a minus sign for a negative number.
\<close>

datatype exn = runtime_error string

fun what :: "exn \<Rightarrow> string" where
  "what (runtime_error msg) = msg"

datatype 'a outcome = Returns 'a | Throws exn | Blocks

definition digit :: "nat \<Rightarrow> char" where
  "digit d = ''0123456789'' ! d"

fun digits :: "nat \<Rightarrow> string" where
  "digits n = (if n < 10 then [digit n] else digits (n div 10) @ [digit (n mod 10)])"

declare digits.simps [simp del]

definition to_string :: "int \<Rightarrow> string" where
  "to_string i = (if i < 0 then CHR ''-'' # digits (nat (- i)) else digits (nat i))"

definition unsigned_int :: "int \<Rightarrow> nat" where
  "unsigned_int i = nat (i mod 2 ^ 32)"

section \<open>DigitalPin (DigitalPin.h, DigitalPin.cpp)\<close>

text \<open>
  The members of the class keep their names, with \<open>_m\<close> where the source has a trailing
  underscore (\<open>direction_\<close> is \<open>direction_m\<close>). \<open>mutex_m\<close> is true while the mutex is
  held. Every method takes the object and the world and returns its outcome with both as
  it leaves them. \<open>lock_guard\<close> is the scope of a \<open>std::lock_guard\<close>: it waits when the
  mutex is held, otherwise it takes the mutex, runs the rest of the method body and gives
  the mutex back on every way out, return or throw. \<open>DigitalPin_ctor_default\<close> is the
  constructor called without a label: the declaration gives \<open>name\<close> the default
  argument \<open>""\<close>.
\<close>

datatype Direction = Input | Output

record DigitalPin =
  pinNumber_m :: int
  direction_m :: Direction
  name_m :: string
  chip_m :: gpiod_chip_ptr
  line_m :: gpiod_line_ptr
  mutex_m :: bool

definition lock_guard ::
    "(DigitalPin \<Rightarrow> world \<Rightarrow> 'a outcome \<times> DigitalPin \<times> world) \<Rightarrow>
     DigitalPin \<Rightarrow> world \<Rightarrow> 'a outcome \<times> DigitalPin \<times> world" where
  "lock_guard body this w =
     (if mutex_m this then (Blocks, this, w)
      else let (r, this', w') = body (this\<lparr>mutex_m := True\<rparr>) w
           in (r, this'\<lparr>mutex_m := False\<rparr>, w'))"

definition DigitalPin_ctor ::
    "int \<Rightarrow> Direction \<Rightarrow> string \<Rightarrow> world \<Rightarrow> DigitalPin outcome \<times> world" where
  "DigitalPin_ctor pinNumber dir name w =
     (let this = \<lparr>pinNumber_m = pinNumber, direction_m = dir,
                  name_m = (if name = [] then ''Pin'' @ to_string pinNumber else name),
                  chip_m = NULL, line_m = NULL, mutex_m = False\<rparr>;
          (chip, w1) = gpiod_chip_open_by_number 0 w;
          this = this\<lparr>chip_m := chip\<rparr>
      in if chip_m this = NULL
         then (Throws (runtime_error (''Failed to open GPIO chip: '' @ strerror_errno w1 (calls w1))), w1)
         else
           let (line, w2) = gpiod_chip_get_line (chip_m this) (unsigned_int (pinNumber_m this)) w1;
               this = this\<lparr>line_m := line\<rparr>
           in if line_m this = NULL
              then let w3 = gpiod_chip_close (chip_m this) w2
                   in (Throws (runtime_error (''Failed to access GPIO line for pin number ''
                                 @ to_string (pinNumber_m this))), w3)
              else
                let config = \<lparr>request_type = (if dir = Input
                                               then GPIOD_LINE_REQUEST_DIRECTION_INPUT
                                               else GPIOD_LINE_REQUEST_DIRECTION_OUTPUT),
                              consumer = ''DigitalPin'', flags = 0\<rparr>;
                    (rc, w3) = gpiod_line_request (line_m this) config 0 w2
                in if rc \<noteq> 0
                   then let w4 = gpiod_chip_close (chip_m this) w3
                        in (Throws (runtime_error (''Failed to configure GPIO pin: ''
                                      @ strerror_errno w4 (calls w4))), w4)
                   else (Returns this, w3))"

definition DigitalPin_dtor :: "DigitalPin \<Rightarrow> world \<Rightarrow> unit outcome \<times> world" where
  "DigitalPin_dtor this w =
     (let w1 = (if line_m this \<noteq> NULL then gpiod_line_release (line_m this) w else w);
          w2 = (if chip_m this \<noteq> NULL then gpiod_chip_close (chip_m this) w1 else w1)
      in (Returns (), w2))"

definition read :: "DigitalPin \<Rightarrow> world \<Rightarrow> bool outcome \<times> DigitalPin \<times> world" where
  "read this = lock_guard (\<lambda>this w.
     if direction_m this \<noteq> Input
     then (Throws (runtime_error ''Attempted to read from an output-configured pin.''), this, w)
     else let (v, w') = gpiod_line_get_value (line_m this) w
          in (Returns (0 < v), this, w')) this"

definition "write" :: "DigitalPin \<Rightarrow> bool \<Rightarrow> world \<Rightarrow> unit outcome \<times> DigitalPin \<times> world" where
  "write this val = lock_guard (\<lambda>this w.
     if direction_m this \<noteq> Output
     then (Throws (runtime_error ''Attempted to write to an input-configured pin.''), this, w)
     else let (rc, w') = gpiod_line_set_value (line_m this) (if val then 1 else 0) w
          in (Returns (), this, w')) this"

definition getName :: "DigitalPin \<Rightarrow> world \<Rightarrow> string outcome \<times> DigitalPin \<times> world" where
  "getName this w = (Returns (name_m this), this, w)"

definition DigitalPin_ctor_default :: "int \<Rightarrow> Direction \<Rightarrow> world \<Rightarrow> DigitalPin outcome \<times> world" where
  "DigitalPin_ctor_default pinNumber dir = DigitalPin_ctor pinNumber dir []"

section \<open>The driver (DigitalPinDriver.cpp)\<close>

text \<open>
  Each stream insertion appends one entry to \<open>cout\<close> or \<open>cerr\<close>. \<open>cin_extract\<close> is
  \<open>std::cin >> command\<close> for a \<open>char\<close>: it skips white space and takes one character;
  at the end of the input it leaves \<open>command\<close> as it was. The loop is a partial function:
  once the input is used up without a \<open>q\<close> it repeats the last command for ever, and
  no result exists. The value of \<open>command\<close> before the first extraction is indeterminate
  in the source and is a parameter of \<open>main\<close>. In the branch of \<open>r\<close> the text
  \<open>Button state: \<close> is inserted before \<open>read\<close> is called (the order of C++17).
  Leaving the try block, by return or by throw, destroys the handles built so far, the
  input handle first.
\<close>

definition isspace :: "char \<Rightarrow> bool" where
  "isspace c = (c \<in> set [CHR '' '', CHR 0x09, CHR 0x0A, CHR 0x0B, CHR 0x0C, CHR 0x0D])"

definition cin_extract :: "char \<Rightarrow> world \<Rightarrow> char \<times> world" where
  "cin_extract command w =
     (case dropWhile isspace (cin w) of
        [] \<Rightarrow> (command, w\<lparr>cin := []\<rparr>)
      | c # rest \<Rightarrow> (c, w\<lparr>cin := rest\<rparr>))"

definition cout_put :: "string \<Rightarrow> world \<Rightarrow> world" where
  "cout_put s w = w\<lparr>cout := cout w @ [s]\<rparr>"

definition cerr_put :: "string \<Rightarrow> world \<Rightarrow> world" where
  "cerr_put s w = w\<lparr>cerr := cerr w @ [s]\<rparr>"

definition endl :: string where
  "endl = [CHR 0x0A]"

definition command_switch ::
    "char \<Rightarrow> DigitalPin \<Rightarrow> DigitalPin \<Rightarrow> bool \<Rightarrow> world \<Rightarrow>
     bool outcome \<times> DigitalPin \<times> DigitalPin \<times> world" where
  "command_switch command outputPin inputPin running w =
     (if command = CHR ''1'' then
        (case write outputPin True w of
           (Returns u, outputPin', w') \<Rightarrow>
             (Returns running, outputPin', inputPin, cout_put endl (cout_put ''LED turned ON.'' w'))
         | (Throws e, outputPin', w') \<Rightarrow> (Throws e, outputPin', inputPin, w')
         | (Blocks, outputPin', w') \<Rightarrow> (Blocks, outputPin', inputPin, w'))
      else if command = CHR ''0'' then
        (case write outputPin False w of
           (Returns u, outputPin', w') \<Rightarrow>
             (Returns running, outputPin', inputPin, cout_put endl (cout_put ''LED turned OFF.'' w'))
         | (Throws e, outputPin', w') \<Rightarrow> (Throws e, outputPin', inputPin, w')
         | (Blocks, outputPin', w') \<Rightarrow> (Blocks, outputPin', inputPin, w'))
      else if command = CHR ''r'' then
        (case read inputPin (cout_put ''Button state: '' w) of
           (Returns pressed, inputPin', w') \<Rightarrow>
             (Returns running, outputPin, inputPin',
              cout_put endl (cout_put (if pressed then ''Pressed'' else ''Not pressed'') w'))
         | (Throws e, inputPin', w') \<Rightarrow> (Throws e, outputPin, inputPin', w')
         | (Blocks, inputPin', w') \<Rightarrow> (Blocks, outputPin, inputPin', w'))
      else if command = CHR ''q'' then (Returns False, outputPin, inputPin, w)
      else (Returns running, outputPin, inputPin, cout_put endl (cout_put ''Invalid command.'' w)))"

partial_function (option) while_running ::
    "DigitalPin \<Rightarrow> DigitalPin \<Rightarrow> char \<Rightarrow> bool \<Rightarrow> world \<Rightarrow>
     (unit outcome \<times> DigitalPin \<times> DigitalPin \<times> world) option" where
  "while_running outputPin inputPin command running w =
     (if \<not> running then Some (Returns (), outputPin, inputPin, w)
      else
        let (command', w1) = cin_extract command w
        in case command_switch command' outputPin inputPin running w1 of
             (Returns running', outputPin', inputPin', w2) \<Rightarrow>
               while_running outputPin' inputPin' command' running' w2
           | (Throws e, outputPin', inputPin', w2) \<Rightarrow> Some (Throws e, outputPin', inputPin', w2)
           | (Blocks, outputPin', inputPin', w2) \<Rightarrow> None)"

definition try_block :: "char \<Rightarrow> world \<Rightarrow> (unit outcome \<times> world) option" where
  "try_block command w =
     (case DigitalPin_ctor 17 Output ''LED'' w of
        (Throws e, w1) \<Rightarrow> Some (Throws e, w1)
      | (Blocks, w1) \<Rightarrow> None
      | (Returns outputPin, w1) \<Rightarrow>
          (case DigitalPin_ctor 27 Input ''Button'' w1 of
             (Throws e, w2) \<Rightarrow> Some (Throws e, snd (DigitalPin_dtor outputPin w2))
           | (Blocks, w2) \<Rightarrow> None
           | (Returns inputPin, w2) \<Rightarrow>
               (case while_running outputPin inputPin command True
                       (cout_put endl (cout_put (''Setup complete. Press '' @ [CHR 0x27] @ ''1'' @ [CHR 0x27]
                          @ '' to turn on the LED, '' @ [CHR 0x27] @ ''0'' @ [CHR 0x27]
                          @ '' to turn off, and '' @ [CHR 0x27] @ ''r'' @ [CHR 0x27]
                          @ '' to read the button state. Press '' @ [CHR 0x27] @ ''q'' @ [CHR 0x27]
                          @ '' to quit.'') w2)) of
                  None \<Rightarrow> None
                | Some (r, outputPin', inputPin', w3) \<Rightarrow>
                    Some (r, snd (DigitalPin_dtor outputPin' (snd (DigitalPin_dtor inputPin' w3)))))))"

definition catch_exception :: "unit outcome \<Rightarrow> world \<Rightarrow> world" where
  "catch_exception r w =
     (case r of Throws e \<Rightarrow> cerr_put endl (cerr_put (what e) (cerr_put ''Error: '' w)) | _ \<Rightarrow> w)"

declare while_running.simps [code]

definition main :: "char \<Rightarrow> world \<Rightarrow> (int \<times> world) option" where
  "main command w =
     (case try_block command (cout_put endl (cout_put ''DigitalPin Driver Application'' w)) of
        None \<Rightarrow> None
      | Some (r, w1) \<Rightarrow>
          Some (0, cout_put endl (cout_put ''Exiting DigitalPin Driver Application.''
                                   (catch_exception r w1))))"


section \<open>The public interface as operations\<close>

text \<open>
  The four things a caller can do with a constructed handle. \<open>perform\<close> runs one of them
  and keeps the object and the world it leaves; the destructor assigns no member.
\<close>

datatype operation = Read | Write bool | GetName | Destroy

fun perform :: "operation \<Rightarrow> DigitalPin \<times> world \<Rightarrow> DigitalPin \<times> world" where
  "perform Read (this, w) = snd (read this w)"
| "perform (Write val) (this, w) = snd (write this val w)"
| "perform GetName (this, w) = snd (getName this w)"
| "perform Destroy (this, w) = (this, snd (DigitalPin_dtor this w))"

section \<open>A board to run the program on\<close>

text \<open>
  A board with one chip and 54 lines, on which every request is granted and line 27 is
  driven high from outside. \<open>LED\<close>, \<open>Button\<close> and \<open>Pin27\<close> are the handles that the
  constructor builds on it. \<open>small_board\<close> is the same board with 20 lines only, so that
  line 27 does not exist. \<open>faulty_board\<close> is the board with lines that can be reserved but
  neither set nor queried: \<open>gpiod_line_set_value\<close> and \<open>gpiod_line_get_value\<close> answer -1,
  the error value of libgpiod; its input is \<open>1 r q\<close>.
\<close>

definition board :: world where
  "board = \<lparr>chip_answer = (\<lambda>cs num. if num = 0 then 1 else NULL),
            line_answer = (\<lambda>cs chip offset. if offset < 54 then 100 + offset else NULL),
            request_answer = (\<lambda>cs line config. 0),
            value_answer = (\<lambda>cs line. if line = 127 then 1 else 0),
            set_answer = (\<lambda>cs line v. 0),
            strerror_errno = (\<lambda>cs. ''No such file or directory''),
            open_chips = [], requested_lines = [], driven = (\<lambda>line. None), calls = [],
            cin = ''1 r 0 q'', cout = [], cerr = []\<rparr>"

definition LED :: DigitalPin where
  "LED = \<lparr>pinNumber_m = 17, direction_m = Output, name_m = ''LED'', chip_m = 1, line_m = 117,
           mutex_m = False\<rparr>"

definition Button :: DigitalPin where
  "Button = \<lparr>pinNumber_m = 27, direction_m = Input, name_m = ''Button'', chip_m = 1, line_m = 127,
              mutex_m = False\<rparr>"

definition Pin27 :: DigitalPin where
  "Pin27 = \<lparr>pinNumber_m = 27, direction_m = Input, name_m = ''Pin27'', chip_m = 1, line_m = 127,
             mutex_m = False\<rparr>"

definition small_board :: world where
  "small_board = board\<lparr>line_answer := (\<lambda>cs chip offset. if offset < 20 then 100 + offset else NULL)\<rparr>"


section \<open>Running the constructor on the board\<close>

lemmas gpiod_defs = gpiod_chip_open_by_number_def gpiod_chip_get_line_def gpiod_line_request_def
  gpiod_line_release_def gpiod_chip_close_def gpiod_line_get_value_def gpiod_line_set_value_def

lemma unsigned_int_small: "unsigned_int 17 = 17" "unsigned_int 27 = 27" "unsigned_int 99 = 99"
  by (simp_all add: unsigned_int_def)

lemma unsigned_int_wraps: "unsigned_int (- 1) = 4294967295"
  by (simp add: unsigned_int_def)

lemma to_string_small: "to_string 17 = ''17''" "to_string 27 = ''27''" "to_string 99 = ''99''"
  by code_simp+

lemma to_string_negative: "to_string (- 120) = ''-120''"
  by code_simp

lemma ctor_LED:
  "DigitalPin_ctor 17 Output ''LED'' board =
     (Returns LED,
      board\<lparr>open_chips := [1], requested_lines := [117],
            calls := [chip_open_by_number 0, chip_get_line 1 17,
                      line_request 117 \<lparr>request_type = GPIOD_LINE_REQUEST_DIRECTION_OUTPUT,
                                         consumer = ''DigitalPin'', flags = 0\<rparr> 0]\<rparr>)"
  by (simp add: DigitalPin_ctor_def board_def LED_def gpiod_defs NULL_def unsigned_int_small Let_def)

lemma ctor_Button:
  "DigitalPin_ctor 27 Input ''Button'' board =
     (Returns Button,
      board\<lparr>open_chips := [1], requested_lines := [127],
            calls := [chip_open_by_number 0, chip_get_line 1 27,
                      line_request 127 \<lparr>request_type = GPIOD_LINE_REQUEST_DIRECTION_INPUT,
                                         consumer = ''DigitalPin'', flags = 0\<rparr> 0]\<rparr>)"
  by (simp add: DigitalPin_ctor_def board_def Button_def gpiod_defs NULL_def unsigned_int_small
      Let_def)

lemma ctor_Pin27:
  "DigitalPin_ctor 27 Input [] board =
     (Returns Pin27,
      board\<lparr>open_chips := [1], requested_lines := [127],
            calls := [chip_open_by_number 0, chip_get_line 1 27,
                      line_request 127 \<lparr>request_type = GPIOD_LINE_REQUEST_DIRECTION_INPUT,
                                         consumer = ''DigitalPin'', flags = 0\<rparr> 0]\<rparr>)"
  by (simp add: DigitalPin_ctor_def board_def Pin27_def gpiod_defs NULL_def unsigned_int_small
      to_string_small Let_def)

lemma ctor_99:
  "DigitalPin_ctor 99 Output [] board =
     (Throws (runtime_error ''Failed to access GPIO line for pin number 99''),
      board\<lparr>calls := [chip_open_by_number 0, chip_get_line 1 99, chip_close 1]\<rparr>)"
  by (simp add: DigitalPin_ctor_def board_def gpiod_defs NULL_def unsigned_int_small
      to_string_small Let_def)

lemma ctor_rejected:
  "DigitalPin_ctor 17 Output ''LED'' (board\<lparr>request_answer := \<lambda>cs line config. - 1\<rparr>) =
     (Throws (runtime_error ''Failed to configure GPIO pin: No such file or directory''),
      board\<lparr>request_answer := \<lambda>cs line config. - 1,
            calls := [chip_open_by_number 0, chip_get_line 1 17,
                      line_request 117 \<lparr>request_type = GPIOD_LINE_REQUEST_DIRECTION_OUTPUT,
                                         consumer = ''DigitalPin'', flags = 0\<rparr> 0,
                      chip_close 1]\<rparr>)"
  by (simp add: DigitalPin_ctor_def board_def gpiod_defs NULL_def unsigned_int_small Let_def)

section \<open>What a constructed handle looks like\<close>

lemma ctor_fields:
  assumes "DigitalPin_ctor pinNumber dir name w = (Returns this, w')"
  shows "direction_m this = dir"
    and "pinNumber_m this = pinNumber"
    and "name_m this = (if name = [] then ''Pin'' @ to_string pinNumber else name)"
    and "chip_m this \<noteq> NULL"
    and "line_m this \<noteq> NULL"
    and "\<not> mutex_m this"
  using assms
  by (auto simp add: DigitalPin_ctor_def Let_def split: prod.splits if_splits)

section \<open>What the methods leave alone\<close>

lemma lock_guard_direction:
  assumes "\<And>this w. direction_m (fst (snd (body this w))) = direction_m this"
  shows "direction_m (fst (snd (lock_guard body this w))) = direction_m this"
  using assms [of "this\<lparr>mutex_m := True\<rparr>" w]
  by (auto simp add: lock_guard_def split: prod.splits)

lemma read_direction: "direction_m (fst (snd (read this w))) = direction_m this"
  unfolding read_def by (rule lock_guard_direction) (simp split: prod.splits)

lemma write_direction: "direction_m (fst (snd (write this val w))) = direction_m this"
  unfolding write_def by (rule lock_guard_direction) (simp split: prod.splits)

lemma perform_direction: "direction_m (fst (perform op s)) = direction_m (fst s)"
proof (cases s)
  case (Pair this w)
  then show ?thesis
    by (cases op) (simp_all add: read_direction write_direction getName_def)
qed

lemma fold_perform_direction: "direction_m (fst (fold perform ops s)) = direction_m (fst s)"
  by (induction ops arbitrary: s) (simp_all add: perform_direction)

lemma mutex_free_after_read: "\<not> mutex_m this \<Longrightarrow> \<not> mutex_m (fst (snd (read this w)))"
  by (simp add: read_def lock_guard_def split: prod.splits)

lemma mutex_free_after_write: "\<not> mutex_m this \<Longrightarrow> \<not> mutex_m (fst (snd (write this val w)))"
  by (simp add: write_def lock_guard_def split: prod.splits)

section \<open>What leaves the input and the error stream alone\<close>








section \<open>The command loop with the handles of the driver\<close>









section \<open>The try block\<close>



section \<open>Two runs of the driver\<close>

text \<open>
  On the board, with the commands \<open>1 r 0 q\<close>: both handles are built, the LED is
  switched on, the button is read, the LED is switched off, and both handles are
  destroyed, the input handle first. Nothing is written to the error stream.
\<close>

lemma main_on_board:
  "map_option (\<lambda>(rc, w). (rc, calls w, cerr w, cin w, open_chips w, requested_lines w, driven w 117))
     (main (CHR ''x'') board) =
   Some (0,
     [chip_open_by_number 0, chip_get_line 1 17,
      line_request 117 \<lparr>request_type = GPIOD_LINE_REQUEST_DIRECTION_OUTPUT,
                         consumer = ''DigitalPin'', flags = 0\<rparr> 0,
      chip_open_by_number 0, chip_get_line 1 27,
      line_request 127 \<lparr>request_type = GPIOD_LINE_REQUEST_DIRECTION_INPUT,
                         consumer = ''DigitalPin'', flags = 0\<rparr> 0,
      line_set_value 117 1, line_get_value 127, line_set_value 117 0,
      line_release 127, chip_close 1, line_release 117, chip_close 1],
     [], [], [], [], Some 0)"
  by code_simp

text \<open>
  On the board with 20 lines only, the second construction fails: the chip it opened is
  closed, the first handle is destroyed, the failure is reported, and no command is read.
\<close>

lemma main_without_line_27:
  "map_option (\<lambda>(rc, w). (rc, calls w, cerr w, cin w, open_chips w, requested_lines w))
     (main (CHR ''x'') small_board) =
   Some (0,
     [chip_open_by_number 0, chip_get_line 1 17,
      line_request 117 \<lparr>request_type = GPIOD_LINE_REQUEST_DIRECTION_OUTPUT,
                         consumer = ''DigitalPin'', flags = 0\<rparr> 0,
      chip_open_by_number 0, chip_get_line 1 27, chip_close 1,
      line_release 117, chip_close 1],
     [''Error: '', ''Failed to access GPIO line for pin number 27'', endl],
     ''1 r 0 q'', [], [])"
  by code_simp


section \<open>The claims\<close>



text \<open>
  C2. A call of \<open>write\<close>, with either value, on a handle whose direction is \<open>Input\<close>
  fails with the wrong-direction error (the \<open>std::runtime_error\<close> with the message
  ``Attempted to write to an input-configured pin.'') and makes no hardware access: the
  world and the object are returned as they were. As for \<open>read\<close>, a call that finds the
  mutex held waits.
\<close>

theorem write_on_input_pin:
  assumes "direction_m this = Input"
  shows "write this val w =
           ((if mutex_m this then Blocks
             else Throws (runtime_error ''Attempted to write to an input-configured pin.'')),
            this, w)"
  using assms by (simp add: write_def lock_guard_def)

theorem write_on_input_pin_witness:
  "direction_m Button = Input \<and>
   write Button True board =
     (Throws (runtime_error ''Attempted to write to an input-configured pin.''), Button, board) \<and>
   write Button False board =
     (Throws (runtime_error ''Attempted to write to an input-configured pin.''), Button, board)"
  using write_on_input_pin [of Button True board] write_on_input_pin [of Button False board]
  by (simp add: Button_def)

text \<open>
  C3. When the constructor fails although the chip was opened, the calls it has made are
  the opening of chip 0, the lookup of the line, the request if the line exists, and last
  the closing of the chip it opened; the world differs from the one before the call in
  that log only, so no chip is left open and no line reserved.
\<close>

theorem failed_construction_closes_chip:
  assumes "DigitalPin_ctor pinNumber dir name w = (Throws e, w')"
    and "chip_answer w (calls w) 0 \<noteq> NULL"
  shows "let chip = chip_answer w (calls w) 0;
             line = line_answer w (calls w @ [chip_open_by_number 0]) chip (unsigned_int pinNumber);
             config = \<lparr>request_type = (if dir = Input then GPIOD_LINE_REQUEST_DIRECTION_INPUT
                                          else GPIOD_LINE_REQUEST_DIRECTION_OUTPUT),
                        consumer = ''DigitalPin'', flags = 0\<rparr>
         in w' = w\<lparr>calls := calls w
                     @ [chip_open_by_number 0, chip_get_line chip (unsigned_int pinNumber)]
                     @ (if line = NULL then [] else [line_request line config 0])
                     @ [chip_close chip]\<rparr>"
  using assms
  by (auto simp add: DigitalPin_ctor_def gpiod_defs Let_def split: if_splits)

theorem failed_construction_closes_chip_witness:
  "DigitalPin_ctor 99 Output [] board =
     (Throws (runtime_error ''Failed to access GPIO line for pin number 99''),
      board\<lparr>calls := [chip_open_by_number 0, chip_get_line 1 99, chip_close 1]\<rparr>) \<and>
   chip_answer board (calls board) 0 \<noteq> NULL \<and>
   open_chips (snd (DigitalPin_ctor 99 Output [] board)) = open_chips board \<and>
   last (calls (snd (DigitalPin_ctor 99 Output [] board))) = chip_close 1"
proof -
  have opened: "chip_answer board (calls board) 0 \<noteq> NULL"
    by (simp add: board_def NULL_def)
  from failed_construction_closes_chip [OF ctor_99 opened] ctor_99 opened
  show ?thesis by (simp add: board_def NULL_def unsigned_int_small)
qed




text \<open>
  C5. A call of \<open>read\<close> on a handle whose direction is \<open>Input\<close>, and whose mutex is
  free (as it is after the construction and after every read and write: \<open>ctor_fields\<close>,
  \<open>mutex_free_after_read\<close>, \<open>mutex_free_after_write\<close>), returns whether the value that \<open>gpiod_line_get_value\<close>
  gave for the line is greater than zero, so \<open>false\<close> for zero and for every negative
  value. Its one hardware access is that query: the world afterwards is the world before
  with the query added to the log, and the object is unchanged.
\<close>

theorem read_on_input_pin:
  assumes "direction_m this = Input" and "\<not> mutex_m this"
  shows "read this w =
           (Returns (0 < fst (gpiod_line_get_value (line_m this) w)), this,
            w\<lparr>calls := calls w @ [line_get_value (line_m this)]\<rparr>)"
  using assms by (simp add: read_def lock_guard_def gpiod_line_get_value_def)

theorem read_on_input_pin_witness:
  "direction_m Button = Input \<and> \<not> mutex_m Button \<and>
   read Button board = (Returns True, Button, board\<lparr>calls := [line_get_value 127]\<rparr>) \<and>
   read Button (board\<lparr>value_answer := \<lambda>cs line. - 1\<rparr>) =
     (Returns False, Button,
      board\<lparr>value_answer := \<lambda>cs line. - 1, calls := [line_get_value 127]\<rparr>)"
  using read_on_input_pin [of Button board]
    read_on_input_pin [of Button "board\<lparr>value_answer := \<lambda>cs line. - 1\<rparr>"]
  by (simp add: Button_def board_def gpiod_line_get_value_def)

text \<open>
  C6. On a handle that the constructor returned, \<open>getName\<close> returns the label given to
  the constructor when that label is not empty, and \<open>Pin\<close> followed by the decimal
  rendering of the pin number when it is empty, which is what the declared default
  argument passes when no label is given. It changes neither the object nor the world.
\<close>

theorem getName_returns_label:
  assumes "DigitalPin_ctor pinNumber dir name w = (Returns this, w')"
  shows "getName this v =
           (Returns (if name = [] then ''Pin'' @ to_string pinNumber else name), this, v)"
  using assms by (simp add: getName_def ctor_fields)

theorem getName_returns_label_witness:
  "fst (DigitalPin_ctor 17 Output ''LED'' board) = Returns LED \<and>
   getName LED board = (Returns ''LED'', LED, board) \<and>
   fst (DigitalPin_ctor_default 27 Input board) = Returns Pin27 \<and>
   getName Pin27 board = (Returns ''Pin27'', Pin27, board)"
  using getName_returns_label [OF ctor_LED, of board] getName_returns_label [OF ctor_Pin27, of board]
    ctor_LED ctor_Pin27
  by (simp add: to_string_small DigitalPin_ctor_default_def)

text \<open>
  C7. The destructor never fails. It releases the line if the line pointer is not null,
  then closes the chip if the chip pointer is not null, in that order, and makes no call
  for a pointer that is null.
\<close>

theorem destructor_releases_then_closes:
  "DigitalPin_dtor this w =
     (Returns (),
      w\<lparr>requested_lines := (if line_m this \<noteq> NULL then remove1 (line_m this) (requested_lines w)
                              else requested_lines w),
        open_chips := (if chip_m this \<noteq> NULL then remove1 (chip_m this) (open_chips w)
                       else open_chips w),
        calls := calls w @ (if line_m this \<noteq> NULL then [line_release (line_m this)] else [])
                         @ (if chip_m this \<noteq> NULL then [chip_close (chip_m this)] else [])\<rparr>)"
  by (simp add: DigitalPin_dtor_def gpiod_line_release_def gpiod_chip_close_def)

theorem destructor_releases_then_closes_witness:
  "DigitalPin_dtor LED (board\<lparr>open_chips := [1], requested_lines := [117]\<rparr>) =
     (Returns (), board\<lparr>calls := [line_release 117, chip_close 1]\<rparr>) \<and>
   DigitalPin_dtor (LED\<lparr>line_m := NULL\<rparr>) (board\<lparr>open_chips := [1]\<rparr>) =
     (Returns (), board\<lparr>calls := [chip_close 1]\<rparr>) \<and>
   DigitalPin_dtor (LED\<lparr>chip_m := NULL, line_m := NULL\<rparr>) board = (Returns (), board)"
  using destructor_releases_then_closes [of LED "board\<lparr>open_chips := [1], requested_lines := [117]\<rparr>"]
    destructor_releases_then_closes [of "LED\<lparr>line_m := NULL\<rparr>" "board\<lparr>open_chips := [1]\<rparr>"]
    destructor_releases_then_closes [of "LED\<lparr>chip_m := NULL, line_m := NULL\<rparr>" board]
  by (simp add: LED_def board_def NULL_def)

text \<open>
  C8. On a handle that the constructor returned, the direction after any sequence of
  reads, writes, calls of \<open>getName\<close> and the destruction, in any world, is the direction
  given to the constructor.
\<close>

theorem direction_never_changes:
  assumes "DigitalPin_ctor pinNumber dir name w = (Returns this, w')"
  shows "direction_m (fst (fold perform ops (this, v))) = dir"
  using assms by (simp add: fold_perform_direction ctor_fields)

theorem direction_never_changes_witness:
  "fst (DigitalPin_ctor 17 Output ''LED'' board) = Returns LED \<and>
   direction_m (fst (fold perform [Write True, Read, GetName, Write False, Destroy] (LED, board)))
     = Output"
  using direction_never_changes
      [OF ctor_LED, of "[Write True, Read, GetName, Write False, Destroy]" board]
    ctor_LED
  by simp

text \<open>
  C10. The constructor called with the empty string as label does what the constructor
  called without a label does, and the handle it returns has the label \<open>Pin\<close> followed by
  the decimal rendering of the pin number, which is not the empty string.
\<close>

theorem empty_label_gets_default:
  "DigitalPin_ctor pinNumber dir [] w = DigitalPin_ctor_default pinNumber dir w \<and>
   (DigitalPin_ctor pinNumber dir [] w = (Returns this, w') \<longrightarrow>
      name_m this = ''Pin'' @ to_string pinNumber \<and> name_m this \<noteq> [])"
  by (auto simp add: DigitalPin_ctor_default_def ctor_fields)

theorem empty_label_gets_default_witness:
  "fst (DigitalPin_ctor 27 Input [] board) = Returns Pin27 \<and>
   fst (DigitalPin_ctor_default 27 Input board) = Returns Pin27 \<and>
   name_m Pin27 = ''Pin27''"
proof -
  let ?w' = "snd (DigitalPin_ctor 27 Input [] board)"
  have built: "DigitalPin_ctor 27 Input [] board = (Returns Pin27, ?w')"
    by (simp add: ctor_Pin27)
  have same: "DigitalPin_ctor 27 Input [] board = DigitalPin_ctor_default 27 Input board"
    and label: "name_m Pin27 = ''Pin'' @ to_string 27"
    using empty_label_gets_default [of 27 Input board Pin27 ?w'] built by blast+
  have "fst (DigitalPin_ctor 27 Input [] board) = Returns Pin27"
    by (simp add: ctor_Pin27)
  with same label show ?thesis
    by (simp add: to_string_small)
qed

end
